theory Spec2Isabelle
  imports Complex_Main
begin

section \<open>Python values\<close>

text \<open>
  A Python \<^verbatim>\<open>str\<close> is a sequence of Unicode code points, so \<^verbatim>\<open>len\<close> counts code
  points. The literals of \<^verbatim>\<open>app.py\<close> that are plain ASCII are written with \<open>ascii\<close>;
  the Cyrillic ones are written as their code points in hexadecimal (U+0434 is \<open>0x434\<close>),
  with a transliteration beside them.
\<close>

type_synonym pystr = "nat list"

definition ascii :: "string \<Rightarrow> pystr" where
  "ascii s = map of_char s"

text \<open>
  A cell of an input column, as \<^verbatim>\<open>app.py\<close> observes it: \<^verbatim>\<open>dropna\<close> and
  \<^verbatim>\<open>pd.isna\<close> ask whether it is missing (None, NaN, NaT), and every other use goes
  through \<^verbatim>\<open>str(value)\<close> or \<^verbatim>\<open>astype(str)\<close>. A present cell is therefore kept as
  its rendering. (No path of the code takes the \<^verbatim>\<open>str\<close> of a missing cell.)
\<close>

datatype cell = NA | Val pystr

fun isna :: "cell \<Rightarrow> bool" where
  "isna NA = True"
| "isna (Val s) = False"

fun str :: "cell \<Rightarrow> pystr" where
  "str NA = ascii ''nan''"
| "str (Val s) = s"

text \<open>
  The functions of the Python standard library and of pandas that \<^verbatim>\<open>app.py\<close> calls on
  strings are parameters of the model: \<open>strip\<close> and \<open>lower\<close> are \<^verbatim>\<open>str.strip()\<close> and
  \<^verbatim>\<open>str.lower()\<close>; \<open>strptime L s fmt\<close> holds when \<^verbatim>\<open>datetime.strptime(s, fmt)\<close>
  returns and is false when it raises ValueError; \<open>to_datetime L s\<close> holds when
  \<^verbatim>\<open>pd.to_datetime(s, errors='raise')\<close> returns; \<open>float L s\<close> holds when
  \<^verbatim>\<open>float(s)\<close> returns and is false when it raises ValueError. Every theorem below holds
  for every such library.
\<close>

record pylib =
  strip :: "pystr \<Rightarrow> pystr"
  lower :: "pystr \<Rightarrow> pystr"
  strptime :: "pystr \<Rightarrow> pystr \<Rightarrow> bool"
  to_datetime :: "pystr \<Rightarrow> bool"
  float :: "pystr \<Rightarrow> bool"

text \<open>\<^verbatim>\<open>s.replace(old, new)\<close> for a one-character \<open>old\<close>, as \<^verbatim>\<open>_is_numeric\<close> uses it.\<close>

definition replace :: "nat \<Rightarrow> pystr \<Rightarrow> pystr \<Rightarrow> pystr" where
  "replace old new s = concat (map (\<lambda>c. if c = old then new else [c]) s)"

section \<open>Type inference: \<^verbatim>\<open>ExcelTransformer.detect_data_type\<close>\<close>

text \<open>The four results: \<^verbatim>\<open>tekst\<close>, \<^verbatim>\<open>chislo\<close>, \<^verbatim>\<open>data\<close>, \<^verbatim>\<open>flag\<close> in Cyrillic.\<close>

definition type_tekst :: pystr where
  "type_tekst = [0x442, 0x435, 0x43A, 0x441, 0x442]"

definition type_chislo :: pystr where
  "type_chislo = [0x447, 0x438, 0x441, 0x43B, 0x43E]"

definition type_data :: pystr where
  "type_data = [0x434, 0x430, 0x442, 0x430]"

definition type_flag :: pystr where
  "type_flag = [0x444, 0x43B, 0x430, 0x433]"

text \<open>
  The set literal \<^verbatim>\<open>bool_indicators\<close>, in the order of the source: da, net, true,
  false, 1, 0, yes, no, y, n, vkl, vykl, on, off, aktiven, neaktiven.
\<close>

definition bool_indicators :: "pystr list" where
  "bool_indicators =
    [[0x434, 0x430], [0x43D, 0x435, 0x442], ascii ''true'', ascii ''false'',
     ascii ''1'', ascii ''0'', ascii ''yes'', ascii ''no'',
     ascii ''y'', ascii ''n'', [0x432, 0x43A, 0x43B], [0x432, 0x44B, 0x43A, 0x43B],
     ascii ''on'', ascii ''off'',
     [0x430, 0x43A, 0x442, 0x438, 0x432, 0x435, 0x43D],
     [0x43D, 0x435, 0x430, 0x43A, 0x442, 0x438, 0x432, 0x435, 0x43D]]"

definition date_formats :: "pystr list" where
  "date_formats =
    [ascii ''%d.%m.%Y'', ascii ''%d/%m/%Y'', ascii ''%Y-%m-%d'', ascii ''%d-%m-%Y'',
     ascii ''%d.%m.%y'', ascii ''%d/%m/%y'', ascii ''%y-%m-%d'', ascii ''%d-%m-%y'',
     ascii ''%Y.%m.%d'', ascii ''%Y/%m/%d'']"

text \<open>
  \<^verbatim>\<open>_is_date\<close>: the formats are tried in order and the first that parses answers True;
  when none does, \<^verbatim>\<open>pd.to_datetime\<close> decides, and any exception it raises is False.
\<close>

fun try_formats :: "pylib \<Rightarrow> pystr \<Rightarrow> pystr list \<Rightarrow> bool" where
  "try_formats L str_val [] = to_datetime L str_val"
| "try_formats L str_val (fmt # fmts) =
     (if strptime L str_val fmt then True else try_formats L str_val fmts)"

definition is_date :: "pylib \<Rightarrow> cell \<Rightarrow> bool" where
  "is_date L v =
     (if isna v then False
      else let str_val = strip L (str v) in try_formats L str_val date_formats)"

text \<open>\<^verbatim>\<open>_is_numeric\<close>: commas become full stops, spaces (U+0020) are removed.\<close>

definition is_numeric :: "pylib \<Rightarrow> cell \<Rightarrow> bool" where
  "is_numeric L v =
     (if isna v then False
      else float L (replace 0x20 [] (replace 0x2C [0x2E] (str v))))"

text \<open>The two counting loops \<^verbatim>\<open>for val in clean_values: if p(val): count += 1\<close>.\<close>

fun count_loop :: "('a \<Rightarrow> bool) \<Rightarrow> 'a list \<Rightarrow> nat \<Rightarrow> nat" where
  "count_loop p [] count = count"
| "count_loop p (val # vals) count = count_loop p vals (if p val then count + 1 else count)"

definition dropna :: "cell list \<Rightarrow> cell list" where
  "dropna vs = filter (\<lambda>v. \<not> isna v) vs"

text \<open>\<^verbatim>\<open>clean_values.astype(str).str.strip().str.lower()\<close>.\<close>

definition str_values :: "pylib \<Rightarrow> cell list \<Rightarrow> pystr list" where
  "str_values L clean_values = map (\<lambda>v. lower L (strip L (str v))) clean_values"

text \<open>
  \<^verbatim>\<open>detect_data_type\<close>. The two quotients \<^verbatim>\<open>date_count / len(clean_values)\<close> and
  \<^verbatim>\<open>numeric_count / len(clean_values)\<close> are taken exactly, as real numbers, and so are
  the constants 0.7 and 0.8. Python computes them in binary floating point; the result of
  the comparison is the same for every column of fewer than \<open>2 ^ 50\<close> values.
\<close>

definition detect_data_type :: "pylib \<Rightarrow> cell list \<Rightarrow> pystr" where
  "detect_data_type L vs =
     (let clean_values = dropna vs in
      if length clean_values = 0 then type_tekst
      else
        let unique_values = remdups (str_values L clean_values) in
        if list_all (\<lambda>u. u \<in> set bool_indicators) unique_values \<and> length unique_values \<le> 3
        then type_flag
        else
          let date_count = count_loop (is_date L) clean_values 0 in
          if real date_count / real (length clean_values) > 0.7 then type_data
          else
            let numeric_count = count_loop (is_numeric L) clean_values 0 in
            if real numeric_count / real (length clean_values) > 0.8 then type_chislo
            else type_tekst)"

section \<open>The metadata builder: \<^verbatim>\<open>ExcelTransformer.transform_to_metadata\<close>\<close>

text \<open>
  The values a metadata table holds are strings and integers. \<open>str_int\<close> is the decimal
  rendering Python gives an integer in an f-string.
\<close>

datatype pyval = PyStr pystr | PyInt int

fun str_nat :: "nat \<Rightarrow> pystr" where
  "str_nat n = (if n < 10 then [0x30 + n] else str_nat (n div 10) @ [0x30 + n mod 10])"

declare str_nat.simps [simp del]

definition str_int :: "int \<Rightarrow> pystr" where
  "str_int i = (if i < 0 then 0x2D # str_nat (nat (- i)) else str_nat (nat i))"

fun format_val :: "pyval \<Rightarrow> pystr" where
  "format_val (PyStr s) = s"
| "format_val (PyInt i) = str_int i"

text \<open>
  \<^verbatim>\<open>__init__\<close>: \<^verbatim>\<open>report_number or "R001"\<close> takes the default for None and for the
  empty string. The report types are Ruchnoy (manual), Poluavtomaticheskiy
  (semi-automatic), Avtomaticheskiy (automatic) and ILA.
\<close>

definition Ruchnoy :: pystr where
  "Ruchnoy = [0x420, 0x443, 0x447, 0x43D, 0x43E, 0x439]"

definition Poluavtomaticheskiy :: pystr where
  "Poluavtomaticheskiy =
     [0x41F, 0x43E, 0x43B, 0x443, 0x430, 0x432, 0x442, 0x43E, 0x43C, 0x430, 0x442, 0x438,
      0x447, 0x435, 0x441, 0x43A, 0x438, 0x439]"


definition ILA :: pystr where
  "ILA = [0x418, 0x41B, 0x410]"

record transformer =
  report_number :: pystr
  supported_extensions :: "pystr list"
  report_types :: "pystr list"


text \<open>
  The string constants of the loop body: "Ruchnoy vvod" (manual entry), "Ruchnoe
  zapolnenie" (manual fill), "Baza dannykh" (database), "ILA One", "net" (no), "da" (yes),
  "Bazovyy" (base).
\<close>

definition Ruchnoy_vvod :: pystr where
  "Ruchnoy_vvod = [0x420, 0x443, 0x447, 0x43D, 0x43E, 0x439, 0x20, 0x432, 0x432, 0x43E, 0x434]"

definition Ruchnoe_zapolnenie :: pystr where
  "Ruchnoe_zapolnenie =
     [0x420, 0x443, 0x447, 0x43D, 0x43E, 0x435, 0x20, 0x437, 0x430, 0x43F, 0x43E, 0x43B,
      0x43D, 0x435, 0x43D, 0x438, 0x435]"

definition Baza_dannykh :: pystr where
  "Baza_dannykh = [0x411, 0x430, 0x437, 0x430, 0x20, 0x434, 0x430, 0x43D, 0x43D, 0x44B, 0x445]"

definition ILA_One :: pystr where
  "ILA_One = [0x418, 0x41B, 0x410, 0x20, 0x4F, 0x6E, 0x65]"

definition net :: pystr where
  "net = [0x43D, 0x435, 0x442]"

definition da :: pystr where
  "da = [0x434, 0x430]"

definition Bazovyy :: pystr where
  "Bazovyy = [0x411, 0x430, 0x437, 0x43E, 0x432, 0x44B, 0x439]"

text \<open>The dict literal \<^verbatim>\<open>metadata_record\<close>: its keys in the order they are written.\<close>

type_synonym pydict = "(pystr \<times> pyval) list"

definition metadata_record ::
  "nat \<Rightarrow> pystr \<Rightarrow> pystr \<Rightarrow> pystr \<Rightarrow> pystr \<Rightarrow> pystr \<Rightarrow> pydict" where
  "metadata_record idx column tech_algorithm_to_be data_source_type system_connection data_type =
     [(ascii ''ReportCode_info'', PyStr []),
      (ascii ''Noreportfield_info'', PyInt (int idx)),
      (ascii ''name'', PyStr column),
      (ascii ''description'', PyStr []),
      (ascii ''TechAsIs'', PyStr []),
      (ascii ''BussAlgorythm'', PyStr []),
      (ascii ''TechAlgorythm'', PyStr tech_algorithm_to_be),
      (ascii ''algorithms_change_info'', PyStr net),
      (ascii ''dbobjectlink'', PyStr []),
      (ascii ''base_type_info'', PyStr data_source_type),
      (ascii ''related_it_system_info'', PyStr system_connection),
      (ascii ''reportfields_codes'', PyStr []),
      (ascii ''reportfields_names'', PyStr []),
      (ascii ''reportfields_parent_term'', PyStr []),
      (ascii ''reportfields_domain'', PyStr []),
      (ascii ''required_attribute_info'', PyStr da),
      (ascii ''base_type_report_field'', PyStr data_type),
      (ascii ''base_calc_ref_ind_info'', PyStr Bazovyy),
      (ascii ''codeTable_info'', PyStr []),
      (ascii ''example'', PyStr []),
      (ascii ''isToDelete_info'', PyStr [])]"

text \<open>
  The input DataFrame is the list of its columns in order, each with its label and its
  cells; the labels are unique, as the pandas readers that \<^verbatim>\<open>load_from_uploaded_file\<close>
  calls produce them, so \<^verbatim>\<open>df[column]\<close> is that column. One turn of the loop over
  \<^verbatim>\<open>enumerate(df.columns, 1)\<close> builds the record of one column.
\<close>

type_synonym frame = "(pystr \<times> cell list) list"

definition column_record :: "pylib \<Rightarrow> pystr \<Rightarrow> nat \<times> pystr \<times> cell list \<Rightarrow> pydict" where
  "column_record L report_type = (\<lambda>(idx, column, column_data).
     let data_type = detect_data_type L column_data;
         (tech_algorithm_to_be, data_source_type) =
            (if report_type \<in> set [Ruchnoy, Poluavtomaticheskiy]
             then (Ruchnoy_vvod, Ruchnoe_zapolnenie)
             else ([], Baza_dannykh));
         system_connection = (if report_type = ILA then ILA_One else [])
     in metadata_record idx column tech_algorithm_to_be data_source_type
          system_connection data_type)"

text \<open>
  A DataFrame of metadata: its column labels and its rows, every row holding one value per
  column. \<^verbatim>\<open>pd.DataFrame(metadata_list)\<close> takes the columns from the keys of the dicts,
  and every dict the loop builds has the same keys in the same order; an empty list gives
  a DataFrame with no columns and no rows.
\<close>

record dataframe =
  columns :: "pystr list"
  rows :: "pyval list list"

definition DataFrame :: "pydict list \<Rightarrow> dataframe" where
  "DataFrame metadata_list =
     \<lparr>columns = (case metadata_list of [] \<Rightarrow> [] | r # _ \<Rightarrow> map fst r),
      rows = map (map snd) metadata_list\<rparr>"

datatype error = KeyError pystr

fun index_of :: "'a \<Rightarrow> 'a list \<Rightarrow> nat option" where
  "index_of k [] = None"
| "index_of k (x # xs) =
     (if x = k then Some 0 else case index_of k xs of None \<Rightarrow> None | Some j \<Rightarrow> Some (Suc j))"

text \<open>
  \<^verbatim>\<open>df[key]\<close> raises KeyError when no column has the label; \<^verbatim>\<open>df[key] = values\<close>
  replaces the column of that label, or appends a new column when there is none.
\<close>

definition getitem :: "dataframe \<Rightarrow> pystr \<Rightarrow> error + pyval list" where
  "getitem df key =
     (case index_of key (columns df) of
        None \<Rightarrow> Inl (KeyError key)
      | Some j \<Rightarrow> Inr (map (\<lambda>r. r ! j) (rows df)))"

definition setitem :: "dataframe \<Rightarrow> pystr \<Rightarrow> pyval list \<Rightarrow> dataframe" where
  "setitem df key vals =
     (case index_of key (columns df) of
        Some j \<Rightarrow> df\<lparr>rows := map (\<lambda>(r, v). r[j := v]) (zip (rows df) vals)\<rparr>
      | None \<Rightarrow> df\<lparr>columns := columns df @ [key],
                    rows := map (\<lambda>(r, v). r @ [v]) (zip (rows df) vals)\<rparr>)"

text \<open>
  \<^verbatim>\<open>transform_to_metadata\<close>: the records of all columns are collected, the DataFrame
  is built, and then the column \<^verbatim>\<open>ReportCode_info\<close> is filled from the column
  \<^verbatim>\<open>Noreportfield_info\<close> with \<^verbatim>\<open>f"{self.report_number}_{x}"\<close>.
\<close>

definition transform_to_metadata ::
  "pylib \<Rightarrow> transformer \<Rightarrow> frame \<Rightarrow> pystr \<Rightarrow> error + dataframe" where
  "transform_to_metadata L self df report_type =
     (let metadata_list = map (column_record L report_type) (enumerate 1 df);
          metadata_df = DataFrame metadata_list
      in case getitem metadata_df (ascii ''Noreportfield_info'') of
           Inl e \<Rightarrow> Inl e
         | Inr noreportfield \<Rightarrow>
             Inr (setitem metadata_df (ascii ''ReportCode_info'')
                    (map (\<lambda>x. PyStr (report_number self @ ascii ''_'' @ format_val x))
                       noreportfield)))"

section \<open>The exporter: \<^verbatim>\<open>ExcelTransformer.create_excel_download\<close>\<close>



































text \<open>
  A small library for the concrete examples: it strips spaces, lowers the letters A to Z,
  parses \<^verbatim>\<open>%Y-%m-%d\<close> dates written as four, two and two digits with a month from 01 to
  12 and a day from 01 to 28, and parses as a number a non-empty run of digits. It is one
  possible library, used to run the definitions on concrete columns.
\<close>

definition is_digit :: "nat \<Rightarrow> bool" where
  "is_digit c = (0x30 \<le> c \<and> c \<le> 0x39)"

definition digits_value :: "pystr \<Rightarrow> nat" where
  "digits_value s = foldl (\<lambda>n c. 10 * n + (c - 0x30)) 0 s"

definition demo_strip :: "pystr \<Rightarrow> pystr" where
  "demo_strip s = rev (dropWhile (\<lambda>c. c = 0x20) (rev (dropWhile (\<lambda>c. c = 0x20) s)))"

definition demo_lower :: "pystr \<Rightarrow> pystr" where
  "demo_lower s = map (\<lambda>c. if 0x41 \<le> c \<and> c \<le> 0x5A then c + 0x20 else c) s"

definition demo_strptime :: "pystr \<Rightarrow> pystr \<Rightarrow> bool" where
  "demo_strptime s fmt =
     (fmt = ascii ''%Y-%m-%d'' \<and> length s = 10 \<and> s ! 4 = 0x2D \<and> s ! 7 = 0x2D \<and>
      list_all is_digit (take 4 s) \<and> list_all is_digit (take 2 (drop 5 s)) \<and>
      list_all is_digit (drop 8 s) \<and>
      1 \<le> digits_value (take 2 (drop 5 s)) \<and> digits_value (take 2 (drop 5 s)) \<le> 12 \<and>
      1 \<le> digits_value (drop 8 s) \<and> digits_value (drop 8 s) \<le> 28)"

definition demo_float :: "pystr \<Rightarrow> bool" where
  "demo_float s = (s \<noteq> [] \<and> list_all is_digit s)"

definition demo_lib :: pylib where
  "demo_lib = \<lparr>strip = demo_strip, lower = demo_lower, strptime = demo_strptime,
     to_datetime = (\<lambda>s. False), float = demo_float\<rparr>"

text \<open>Example columns. \<open>ones_and_zeros\<close> holds 1, a missing cell, " 0", 1 and "0 ".\<close>

definition ones_and_zeros :: "cell list" where
  "ones_and_zeros =
     [Val (ascii ''1''), NA, Val (ascii '' 0''), Val (ascii ''1''), Val (ascii ''0 '')]"

definition a_date :: cell where
  "a_date = Val (ascii ''2024-03-15'')"

definition a_word :: cell where
  "a_word = Val (ascii ''abc'')"


definition dates_7_of_10 :: "cell list" where
  "dates_7_of_10 =
     [a_date, a_date, a_date, a_word, a_date, a_date, a_word, a_date, a_date, a_word]"

definition dates_8_of_10 :: "cell list" where
  "dates_8_of_10 =
     [a_date, a_date, a_date, a_word, a_date, a_date, a_date, a_date, a_date, a_word]"




section \<open>Properties of the type inference\<close>

lemma count_loop_filter: "count_loop p vals count = count + length (filter p vals)"
  by (induction vals arbitrary: count) auto




lemma type_distinct:
  "type_data \<noteq> type_chislo" "type_data \<noteq> type_tekst" "type_chislo \<noteq> type_tekst"
  "type_flag \<noteq> type_data" "type_flag \<noteq> type_chislo" "type_flag \<noteq> type_tekst"
  by (simp_all add: type_data_def type_chislo_def type_tekst_def type_flag_def)

text \<open>The test on \<^verbatim>\<open>unique_values\<close>, read on the set of distinct values.\<close>

lemma flag_test_iff:
  "(list_all (\<lambda>u. u \<in> set bool_indicators) (remdups xs) \<and> length (remdups xs) \<le> 3) =
   (set xs \<subseteq> set bool_indicators \<and> card (set xs) \<le> 3)"
  by (auto simp: list_all_iff length_remdups_card_conv)

lemma fraction_gt_07: "0 < n \<Longrightarrow> (real k / real n > 0.7) = (7 * n < 10 * k)"
proof -
  assume n: "0 < n"
  have "(real k / real n > 0.7) = (7 * real n < 10 * real k)"
    using n by (simp add: field_simps)
  also have "\<dots> = (real (7 * n) < real (10 * k))" by simp
  also have "\<dots> = (7 * n < 10 * k)" by (simp only: of_nat_less_iff)
  finally show ?thesis .
qed


text \<open>
  C3. When a column has a value that is not missing, the distinct stripped and lowered
  values all belong to \<^verbatim>\<open>bool_indicators\<close> and there are at most three of them, the
  column is classified \<^verbatim>\<open>flag\<close>, whatever \<^verbatim>\<open>_is_date\<close> and \<^verbatim>\<open>_is_numeric\<close> answer
  on its values: the test comes before the two counts.
\<close>

theorem detect_flag_first:
  assumes "dropna vs \<noteq> []"
    and "set (str_values L (dropna vs)) \<subseteq> set bool_indicators"
    and "card (set (str_values L (dropna vs))) \<le> 3"
  shows "detect_data_type L vs = type_flag"
  using assms by (simp add: detect_data_type_def flag_test_iff)

text \<open>In the example every present value is also a number for \<^verbatim>\<open>_is_numeric\<close>.\<close>

theorem detect_flag_first_witness:
  "dropna ones_and_zeros \<noteq> []
   \<and> set (str_values demo_lib (dropna ones_and_zeros)) \<subseteq> set bool_indicators
   \<and> card (set (str_values demo_lib (dropna ones_and_zeros))) \<le> 3
   \<and> length (filter (is_numeric demo_lib) (dropna ones_and_zeros)) = length (dropna ones_and_zeros)
   \<and> detect_data_type demo_lib ones_and_zeros = type_flag"
proof -
  have h1: "dropna ones_and_zeros \<noteq> []"
    by code_simp
  have h2: "set (str_values demo_lib (dropna ones_and_zeros)) \<subseteq> set bool_indicators"
    by code_simp
  have h3: "card (set (str_values demo_lib (dropna ones_and_zeros))) \<le> 3"
    by code_simp
  have h4: "length (filter (is_numeric demo_lib) (dropna ones_and_zeros))
              = length (dropna ones_and_zeros)"
    by code_simp
  from detect_flag_first [OF h1 h2 h3] h1 h2 h3 h4 show ?thesis by simp
qed

text \<open>
  C4. When a column has a value that is not missing and the flag test fails, the column
  is classified \<^verbatim>\<open>data\<close> (date) exactly when more than 0.7 of its present values are
  dates for \<^verbatim>\<open>_is_date\<close>; with exactly 7 dates in every 10 present values it is not.
\<close>

theorem detect_date_iff:
  assumes "dropna vs \<noteq> []"
    and "\<not> (set (str_values L (dropna vs)) \<subseteq> set bool_indicators
           \<and> card (set (str_values L (dropna vs))) \<le> 3)"
  shows "(detect_data_type L vs = type_data \<longleftrightarrow>
            real (length (filter (is_date L) (dropna vs))) / real (length (dropna vs)) > 0.7)
       \<and> (10 * length (filter (is_date L) (dropna vs)) = 7 * length (dropna vs) \<longrightarrow>
            detect_data_type L vs \<noteq> type_data)"
proof -
  let ?n = "length (dropna vs)"
  let ?k = "length (filter (is_date L) (dropna vs))"
  have n: "0 < ?n" using assms(1) by simp
  have iff: "detect_data_type L vs = type_data \<longleftrightarrow> real ?k / real ?n > 0.7"
    using assms type_distinct
    by (auto simp add: detect_data_type_def flag_test_iff count_loop_filter Let_def)
  moreover have "10 * ?k = 7 * ?n \<longrightarrow> \<not> real ?k / real ?n > 0.7"
    using n by (simp only: fraction_gt_07) simp
  ultimately show ?thesis by blast
qed

theorem detect_date_iff_witness:
  "dropna dates_7_of_10 \<noteq> []
   \<and> \<not> (set (str_values demo_lib (dropna dates_7_of_10)) \<subseteq> set bool_indicators
         \<and> card (set (str_values demo_lib (dropna dates_7_of_10))) \<le> 3)
   \<and> 10 * length (filter (is_date demo_lib) (dropna dates_7_of_10))
        = 7 * length (dropna dates_7_of_10)
   \<and> detect_data_type demo_lib dates_7_of_10 \<noteq> type_data
   \<and> detect_data_type demo_lib dates_8_of_10 = type_data"
proof -
  have h1: "dropna dates_7_of_10 \<noteq> []"
    by code_simp
  have h2: "\<not> (set (str_values demo_lib (dropna dates_7_of_10)) \<subseteq> set bool_indicators
              \<and> card (set (str_values demo_lib (dropna dates_7_of_10))) \<le> 3)"
    by code_simp
  have h3: "10 * length (filter (is_date demo_lib) (dropna dates_7_of_10))
              = 7 * length (dropna dates_7_of_10)"
    by code_simp
  have g1: "dropna dates_8_of_10 \<noteq> []"
    by code_simp
  have g2: "\<not> (set (str_values demo_lib (dropna dates_8_of_10)) \<subseteq> set bool_indicators
              \<and> card (set (str_values demo_lib (dropna dates_8_of_10))) \<le> 3)"
    by code_simp
  have g3: "length (filter (is_date demo_lib) (dropna dates_8_of_10)) = 8"
    by code_simp
  have g4: "length (dropna dates_8_of_10) = 10"
    by code_simp
  have "detect_data_type demo_lib dates_7_of_10 \<noteq> type_data"
    using detect_date_iff [OF h1 h2] h3 by blast
  moreover have "detect_data_type demo_lib dates_8_of_10 = type_data"
    using detect_date_iff [OF g1 g2] by (simp add: g3 g4)
  ultimately show ?thesis using h1 h2 h3 by blast
qed



section \<open>Properties of the metadata builder\<close>




























text \<open>
  C1. For an input with no columns \<^verbatim>\<open>transform_to_metadata\<close> does not return a table:
  \<^verbatim>\<open>pd.DataFrame([])\<close> has no column \<^verbatim>\<open>Noreportfield_info\<close>, and reading it raises
  KeyError.
\<close>

theorem transform_zero_columns_raises:
  "transform_to_metadata L self [] report_type = Inl (KeyError (ascii ''Noreportfield_info''))"
  by (simp add: transform_to_metadata_def DataFrame_def getitem_def)








section \<open>Properties of the exporter\<close>
























end
